theory Spec2Isabelle
  imports Complex_Main
begin

section \<open>The billiards aiming widget: geometry and drag controller\<close>

text \<open>
  A shallow embedding of \<^verbatim>\<open>BilliardsAim\<close>. JavaScript numbers are modelled as
  real numbers: \<^verbatim>\<open>Math.hypot(a, b)\<close> is \<open>sqrt (a\<^sup>2 + b\<^sup>2)\<close>, \<^verbatim>\<open>Math.acos\<close> is
  \<open>arccos\<close>, \<^verbatim>\<open>Math.min\<close> and \<^verbatim>\<open>Math.max\<close> are \<open>min\<close> and \<open>max\<close>, and the test
  \<^verbatim>\<open>len(v) || 1\<close> (which replaces a falsy length by 1) is the test for a length of 0.
  Rounding, infinities and NaN are outside this model.
\<close>

subsection \<open>Table constants and pockets\<close>

definition TABLE_W :: real where "TABLE_W = 1000"
definition TABLE_H :: real where "TABLE_H = 500"
definition BALL_R :: real where "BALL_R = 12"
definition CUSHION :: real where "CUSHION = 30"

record point =
  x :: real
  y :: real

text \<open>
  A pocket is an object with the fields \<^verbatim>\<open>id\<close>, \<^verbatim>\<open>x\<close> and \<^verbatim>\<open>y\<close>; the source passes it
  wherever a \<^verbatim>\<open>Point\<close> is expected, so it is a record extending \<open>point\<close> and the vector
  functions accept every extension of \<open>point\<close>.
\<close>

record pocket = point +
  pocket_id :: string

definition mkPocket :: "string \<Rightarrow> real \<Rightarrow> real \<Rightarrow> pocket" where
  "mkPocket i a b = \<lparr>x = a, y = b, pocket_id = i\<rparr>"

definition pockets :: "pocket list" where
  "pockets =
     [mkPocket ''TL'' 0 0,
      mkPocket ''TM'' (TABLE_W / 2) 0,
      mkPocket ''TR'' TABLE_W 0,
      mkPocket ''BL'' 0 TABLE_H,
      mkPocket ''BM'' (TABLE_W / 2) TABLE_H,
      mkPocket ''BR'' TABLE_W TABLE_H]"

datatype Mode = ModePocket | ModeRail1

subsection \<open>Vector and point mathematics\<close>

definition clamp :: "real \<Rightarrow> real \<Rightarrow> real \<Rightarrow> real" where
  "clamp val mn mx = min (max val mn) mx"

definition clampPointToInner :: "'a point_scheme \<Rightarrow> point" where
  "clampPointToInner p =
     \<lparr>x = clamp (x p) BALL_R (TABLE_W - BALL_R),
      y = clamp (y p) BALL_R (TABLE_H - BALL_R)\<rparr>"

definition hypot :: "real \<Rightarrow> real \<Rightarrow> real" where
  "hypot a b = sqrt (a\<^sup>2 + b\<^sup>2)"

definition dist_pt :: "'a point_scheme \<Rightarrow> 'b point_scheme \<Rightarrow> real" where
  "dist_pt a b = (let dx = x a - x b; dy = y a - y b in hypot dx dy)"

definition sub :: "'a point_scheme \<Rightarrow> 'b point_scheme \<Rightarrow> point" where
  "sub a b = \<lparr>x = x a - x b, y = y a - y b\<rparr>"

definition add :: "'a point_scheme \<Rightarrow> 'b point_scheme \<Rightarrow> point" where
  "add a b = \<lparr>x = x a + x b, y = y a + y b\<rparr>"

definition mul :: "'a point_scheme \<Rightarrow> real \<Rightarrow> point" where
  "mul a k = \<lparr>x = x a * k, y = y a * k\<rparr>"

definition len :: "'a point_scheme \<Rightarrow> real" where
  "len v = hypot (x v) (y v)"

definition norm_pt :: "'a point_scheme \<Rightarrow> point" where
  "norm_pt v = (let l = (if len v = 0 then 1 else len v) in \<lparr>x = x v / l, y = y v / l\<rparr>)"

definition dot :: "'a point_scheme \<Rightarrow> 'b point_scheme \<Rightarrow> real" where
  "dot a b = x a * x b + y a * y b"

definition angleBetween :: "'a point_scheme \<Rightarrow> 'b point_scheme \<Rightarrow> real" where
  "angleBetween a b = (let na = norm_pt a; nb = norm_pt b in arccos (clamp (dot na nb) (- 1) 1))"

definition reflect :: "'a point_scheme \<Rightarrow> 'b point_scheme \<Rightarrow> point" where
  "reflect v n = (let nn = norm_pt n; k = 2 * dot v nn in sub v (mul nn k))"

definition ghostBallForPocket :: "'a point_scheme \<Rightarrow> 'b point_scheme \<Rightarrow> point" where
  "ghostBallForPocket object pk =
     (let v = sub object pk; n = norm_pt v in add object (mul n (2 * BALL_R)))"

subsection \<open>Rails\<close>

datatype RailEdge = EdgeTop | EdgeBottom | EdgeLeft | EdgeRight

record railHit =
  rail_point :: point
  edge :: RailEdge

definition clampToRail :: "'a point_scheme \<Rightarrow> railHit" where
  "clampToRail p =
     (let dTop = y p;
          dBottom = TABLE_H - y p;
          dLeft = x p;
          dRight = TABLE_W - x p;
          m = min (min (min dTop dBottom) dLeft) dRight
      in if m = dTop then \<lparr>rail_point = \<lparr>x = clamp (x p) 0 TABLE_W, y = 0\<rparr>, edge = EdgeTop\<rparr>
         else if m = dBottom then
           \<lparr>rail_point = \<lparr>x = clamp (x p) 0 TABLE_W, y = TABLE_H\<rparr>, edge = EdgeBottom\<rparr>
         else if m = dLeft then
           \<lparr>rail_point = \<lparr>x = 0, y = clamp (y p) 0 TABLE_H\<rparr>, edge = EdgeLeft\<rparr>
         else \<lparr>rail_point = \<lparr>x = TABLE_W, y = clamp (y p) 0 TABLE_H\<rparr>, edge = EdgeRight\<rparr>)"

fun edgeNormal :: "RailEdge \<Rightarrow> point" where
  "edgeNormal EdgeTop = \<lparr>x = 0, y = 1\<rparr>"
| "edgeNormal EdgeBottom = \<lparr>x = 0, y = - 1\<rparr>"
| "edgeNormal EdgeLeft = \<lparr>x = 1, y = 0\<rparr>"
| "edgeNormal EdgeRight = \<lparr>x = - 1, y = 0\<rparr>"

definition isInsideCircle :: "'a point_scheme \<Rightarrow> 'b point_scheme \<Rightarrow> real \<Rightarrow> bool" where
  "isInsideCircle p c r = (dist_pt p c \<le> r)"

subsection \<open>Derived aim geometry\<close>

text \<open>
  \<^verbatim>\<open>pocketData\<close> is recomputed from \<^verbatim>\<open>cue\<close>, \<^verbatim>\<open>obj\<close> and the selected pocket,
  \<^verbatim>\<open>railData\<close> from \<^verbatim>\<open>railPoint\<close>, \<^verbatim>\<open>cue\<close> and \<^verbatim>\<open>obj\<close>.
\<close>

record pocket_data =
  ghost :: point
  cueLine :: "point \<times> point"
  objToPocket :: point
  cutAngleDeg :: real

definition pocketData :: "point \<Rightarrow> point \<Rightarrow> pocket \<Rightarrow> pocket_data" where
  "pocketData c ob selectedPocket =
     (let g = ghostBallForPocket ob selectedPocket;
          otp = sub selectedPocket ob;
          objToCue = sub c ob;
          cutAngleRad = angleBetween otp objToCue
      in \<lparr>ghost = g, cueLine = (c, g), objToPocket = otp,
          cutAngleDeg = (cutAngleRad * 180) / pi\<rparr>)"

record rail_data =
  rp :: point
  rd_edge :: RailEdge
  incoming :: point
  normal :: point
  reflected :: point
  toObj :: point
  mismatchDeg :: real

definition railData :: "point \<Rightarrow> point \<Rightarrow> point \<Rightarrow> rail_data" where
  "railData railPt c ob =
     (let h = clampToRail railPt;
          r = rail_point h;
          e = edge h;
          inc = sub r c;
          nrm = edgeNormal e;
          refl = reflect inc nrm;
          tob = sub ob r;
          mismatchRad = angleBetween refl tob
      in \<lparr>rp = r, rd_edge = e, incoming = inc, normal = nrm, reflected = refl, toObj = tob,
          mismatchDeg = (mismatchRad * 180) / pi\<rparr>)"

subsection \<open>Entity state and the drag controller\<close>

datatype DragTarget = TCue | TObj | TRail | TNone | TPocket string

text \<open>
  The component's state: the \<^verbatim>\<open>useState\<close> cells and the drag target held in
  \<^verbatim>\<open>dragRef\<close>. The pointer kind \<^verbatim>\<open>isCoarse\<close> is computed once and is a parameter.
\<close>

text \<open>
  The handlers are taken at the table-local point of the event, after the conversion from
  client coordinates. Pointer capture, \<^verbatim>\<open>preventDefault\<close> and the full-screen flag do
  not touch the state below and are left out.
\<close>

record state =
  mode :: Mode
  cue :: point
  obj :: point
  selectedPocketId :: string
  railPoint :: point
  target :: DragTarget

definition initial_state :: state where
  "initial_state =
     \<lparr>mode = ModePocket,
      cue = \<lparr>x = TABLE_W * 0.25, y = TABLE_H * 0.7\<rparr>,
      obj = \<lparr>x = TABLE_W * 0.6, y = TABLE_H * 0.4\<rparr>,
      selectedPocketId = ''BR'',
      railPoint = \<lparr>x = TABLE_W * 0.7, y = 10\<rparr>,
      target = TNone\<rparr>"

definition HIT_SCALE :: "bool \<Rightarrow> real" where
  "HIT_SCALE isCoarse = (if isCoarse then 2.0 else 1.4)"

definition RAIL_HIT_HALF :: "bool \<Rightarrow> real" where
  "RAIL_HIT_HALF isCoarse = (if isCoarse then 22 else 14)"

definition selectedPocket :: "state \<Rightarrow> pocket option" where
  "selectedPocket s = find (\<lambda>p. pocket_id p = selectedPocketId s) pockets"

text \<open>The loop over the pockets that stops at the first pocket whose circle holds \<open>p\<close>.\<close>

fun hitPocket :: "point \<Rightarrow> real \<Rightarrow> pocket list \<Rightarrow> pocket option" where
  "hitPocket p r [] = None"
| "hitPocket p r (pk # pks) = (if isInsideCircle p pk r then Some pk else hitPocket p r pks)"

definition onPointerDown :: "bool \<Rightarrow> point \<Rightarrow> state \<Rightarrow> state" where
  "onPointerDown isCoarse p s =
     (case hitPocket p (20 * (if isCoarse then 1.3 else 1)) pockets of
        Some pk \<Rightarrow> s\<lparr>target := TPocket (pocket_id pk), selectedPocketId := pocket_id pk\<rparr>
      | None \<Rightarrow>
          if isInsideCircle p (cue s) (BALL_R * HIT_SCALE isCoarse) then s\<lparr>target := TCue\<rparr>
          else if isInsideCircle p (obj s) (BALL_R * HIT_SCALE isCoarse) then s\<lparr>target := TObj\<rparr>
          else
            let r = rp (railData (railPoint s) (cue s) (obj s)) in
            if \<bar>x p - x r\<bar> \<le> RAIL_HIT_HALF isCoarse \<and> \<bar>y p - y r\<bar> \<le> RAIL_HIT_HALF isCoarse
            then s\<lparr>target := TRail\<rparr>
            else s\<lparr>target := TNone\<rparr>)"

definition onPointerMove :: "bool \<Rightarrow> point \<Rightarrow> state \<Rightarrow> state" where
  "onPointerMove isCoarse p s =
     (case target s of
        TNone \<Rightarrow> s
      | TCue \<Rightarrow> s\<lparr>cue := clampPointToInner p\<rparr>
      | TObj \<Rightarrow> s\<lparr>obj := clampPointToInner p\<rparr>
      | TRail \<Rightarrow> s\<lparr>railPoint := \<lparr>x = clamp (x p) 0 TABLE_W, y = clamp (y p) 0 TABLE_H\<rparr>\<rparr>
      | TPocket _ \<Rightarrow>
          (case hitPocket p (25 * (if isCoarse then 1.3 else 1)) pockets of
             Some pk \<Rightarrow> s\<lparr>selectedPocketId := pocket_id pk\<rparr>
           | None \<Rightarrow> s))"

definition onPointerUp :: "state \<Rightarrow> state" where
  "onPointerUp s = s\<lparr>target := TNone\<rparr>"

text \<open>The click handler of the reset button.\<close>

definition reset :: "state \<Rightarrow> state" where
  "reset s =
     s\<lparr>cue := \<lparr>x = TABLE_W * 0.25, y = TABLE_H * 0.7\<rparr>,
       obj := \<lparr>x = TABLE_W * 0.6, y = TABLE_H * 0.4\<rparr>,
       railPoint := \<lparr>x = TABLE_W * 0.7, y = 10\<rparr>\<rparr>"

definition setMode :: "Mode \<Rightarrow> state \<Rightarrow> state" where
  "setMode m s = s\<lparr>mode := m\<rparr>"

datatype event = PointerDown point | PointerMove point | PointerUp | Reset | SetMode Mode

fun step :: "bool \<Rightarrow> state \<Rightarrow> event \<Rightarrow> state" where
  "step isCoarse s (PointerDown p) = onPointerDown isCoarse p s"
| "step isCoarse s (PointerMove p) = onPointerMove isCoarse p s"
| "step isCoarse s PointerUp = onPointerUp s"
| "step isCoarse s Reset = reset s"
| "step isCoarse s (SetMode m) = setMode m s"

text \<open>The state reached from the initial state by a sequence of events.\<close>

definition run :: "bool \<Rightarrow> event list \<Rightarrow> state" where
  "run isCoarse evs = foldl (step isCoarse) initial_state evs"

fun isPointerDown :: "event \<Rightarrow> bool" where
  "isPointerDown (PointerDown p) = True"
| "isPointerDown ev = False"

subsection \<open>The nearest rail as the specification words it\<close>

text \<open>
  The four quantities \<^verbatim>\<open>dTop\<close>, \<^verbatim>\<open>dBottom\<close>, \<^verbatim>\<open>dLeft\<close>, \<^verbatim>\<open>dRight\<close> of the source
  are signed offsets; the distance from a point to the line of an edge is their absolute
  value. Both are given here, with the selection of the first minimal edge in the order
  top, bottom, left, right and the projection onto the selected edge.
\<close>

definition edgeOrder :: "RailEdge list" where
  "edgeOrder = [EdgeTop, EdgeBottom, EdgeLeft, EdgeRight]"

fun edgeOffset :: "point \<Rightarrow> RailEdge \<Rightarrow> real" where
  "edgeOffset p EdgeTop = y p"
| "edgeOffset p EdgeBottom = TABLE_H - y p"
| "edgeOffset p EdgeLeft = x p"
| "edgeOffset p EdgeRight = TABLE_W - x p"

definition edgeDistance :: "point \<Rightarrow> RailEdge \<Rightarrow> real" where
  "edgeDistance p e = \<bar>edgeOffset p e\<bar>"

fun projectToEdge :: "point \<Rightarrow> RailEdge \<Rightarrow> point" where
  "projectToEdge p EdgeTop = \<lparr>x = clamp (x p) 0 TABLE_W, y = 0\<rparr>"
| "projectToEdge p EdgeBottom = \<lparr>x = clamp (x p) 0 TABLE_W, y = TABLE_H\<rparr>"
| "projectToEdge p EdgeLeft = \<lparr>x = 0, y = clamp (y p) 0 TABLE_H\<rparr>"
| "projectToEdge p EdgeRight = \<lparr>x = TABLE_W, y = clamp (y p) 0 TABLE_H\<rparr>"

text \<open>
  \<open>firstMinimal d es\<close> is the first element of \<open>es\<close> whose measure \<open>d\<close> is not above the
  measure of any element of \<open>es\<close>.
\<close>

definition firstMinimal :: "(RailEdge \<Rightarrow> real) \<Rightarrow> RailEdge list \<Rightarrow> RailEdge option" where
  "firstMinimal d es = find (\<lambda>e. list_all (\<lambda>e'. d e \<le> d e') es) es"

definition nearestRailBy :: "(point \<Rightarrow> RailEdge \<Rightarrow> real) \<Rightarrow> point \<Rightarrow> railHit option" where
  "nearestRailBy d p =
     map_option (\<lambda>e. \<lparr>rail_point = projectToEdge p e, edge = e\<rparr>) (firstMinimal (d p) edgeOrder)"

definition clampToNearestRail_spec :: "point \<Rightarrow> railHit option" where
  "clampToNearestRail_spec p = nearestRailBy edgeDistance p"

definition inTable :: "point \<Rightarrow> bool" where
  "inTable p = (0 \<le> x p \<and> x p \<le> TABLE_W \<and> 0 \<le> y p \<and> y p \<le> TABLE_H)"

definition inInterior :: "point \<Rightarrow> bool" where
  "inInterior p =
     (BALL_R \<le> x p \<and> x p \<le> TABLE_W - BALL_R \<and> BALL_R \<le> y p \<and> y p \<le> TABLE_H - BALL_R)"

definition ballsInside :: "state \<Rightarrow> bool" where
  "ballsInside s = (inInterior (cue s) \<and> inInterior (obj s))"

text \<open>
  Two further properties of the states the controller reaches: the stored rail marker is
  within the table rectangle, and the selected pocket is one of the six pockets.
\<close>

definition wellFormed :: "state \<Rightarrow> bool" where
  "wellFormed s = (inTable (railPoint s) \<and> selectedPocketId s \<in> set (map pocket_id pockets))"

subsection \<open>Helper facts about the vector functions\<close>

lemma hypot_zero_iff: "hypot a b = 0 \<longleftrightarrow> a = 0 \<and> b = 0"
  by (simp add: hypot_def)

lemma hypot_nonneg: "0 \<le> hypot a b"
  by (simp add: hypot_def)

lemma len_zero_iff: "len v = 0 \<longleftrightarrow> x v = 0 \<and> y v = 0"
  by (simp add: len_def hypot_zero_iff)

lemma norm_pt_zero: "x v = 0 \<Longrightarrow> y v = 0 \<Longrightarrow> norm_pt v = \<lparr>x = 0, y = 0\<rparr>"
  by (simp add: norm_pt_def Let_def)

lemma len_norm_pt: "len v \<noteq> 0 \<Longrightarrow> len (norm_pt v) = 1"
proof -
  assume nz: "len v \<noteq> 0"
  define l where "l = len v"
  have pos: "0 < l" using nz hypot_nonneg [of "x v" "y v"] by (simp add: len_def l_def)
  have sq: "l\<^sup>2 = (x v)\<^sup>2 + (y v)\<^sup>2"
    by (simp add: l_def len_def hypot_def)
  have "(x v / l)\<^sup>2 + (y v / l)\<^sup>2 = ((x v)\<^sup>2 + (y v)\<^sup>2) / l\<^sup>2"
    by (simp add: power_divide add_divide_distrib)
  also have "\<dots> = l\<^sup>2 / l\<^sup>2" by (simp only: sq)
  also have "\<dots> = 1" using pos by simp
  finally have one: "(x v / l)\<^sup>2 + (y v / l)\<^sup>2 = 1" .
  have "norm_pt v = \<lparr>x = x v / l, y = y v / l\<rparr>"
    using nz by (simp add: norm_pt_def Let_def l_def)
  then show ?thesis using one by (simp add: len_def hypot_def)
qed

lemma norm_pt_nonzero:
  "len n \<noteq> 0 \<Longrightarrow> norm_pt n = \<lparr>x = x n / len n, y = y n / len n\<rparr>"
  by (simp add: norm_pt_def Let_def)

lemma len_sq: "(len n)\<^sup>2 = (x n)\<^sup>2 + (y n)\<^sup>2"
  by (simp add: len_def hypot_def)

lemma len_mult_self: "len n * len n = (x n)\<^sup>2 + (y n)\<^sup>2"
  using len_sq [of n] by (simp add: power2_eq_square)

lemma reflect_components:
  assumes "len n \<noteq> 0"
  shows "reflect v n =
     \<lparr>x = x v - 2 * (x v * x n + y v * y n) * x n / ((x n)\<^sup>2 + (y n)\<^sup>2),
      y = y v - 2 * (x v * x n + y v * y n) * y n / ((x n)\<^sup>2 + (y n)\<^sup>2)\<rparr>"
proof -
  define l where "l = len n"
  have lne: "l \<noteq> 0" using assms by (simp add: l_def)
  have ll: "l * l = (x n)\<^sup>2 + (y n)\<^sup>2" by (simp add: l_def len_mult_self)
  have nn: "norm_pt n = \<lparr>x = x n / l, y = y n / l\<rparr>"
    using assms by (simp add: norm_pt_nonzero l_def)
  have "reflect v n =
     \<lparr>x = x v - x n / l * (2 * (x v * (x n / l) + y v * (y n / l))),
      y = y v - y n / l * (2 * (x v * (x n / l) + y v * (y n / l)))\<rparr>"
    by (simp add: reflect_def Let_def nn sub_def mul_def dot_def)
  moreover have "x n / l * (2 * (x v * (x n / l) + y v * (y n / l)))
      = 2 * (x v * x n + y v * y n) * x n / (l * l)"
    using lne by (simp add: field_simps)
  moreover have "y n / l * (2 * (x v * (x n / l) + y v * (y n / l)))
      = 2 * (x v * x n + y v * y n) * y n / (l * l)"
    using lne by (simp add: field_simps)
  ultimately show ?thesis by (simp add: ll)
qed

lemma move_none: "target s = TNone \<Longrightarrow> onPointerMove c p s = s"
  by (simp add: onPointerMove_def)

lemma moves_none: "target s = TNone \<Longrightarrow> foldl (\<lambda>t q. onPointerMove c q t) s ps = s"
  by (induction ps) (simp_all add: move_none)

lemma step_keeps_none:
  "target s = TNone \<Longrightarrow> isPointerDown ev = False \<Longrightarrow> target (step c s ev) = TNone"
  by (cases ev) (simp_all add: move_none onPointerUp_def reset_def setMode_def)

lemma steps_keep_none:
  "target s = TNone \<Longrightarrow> filter isPointerDown evs = [] \<Longrightarrow>
   target (foldl (step c) s evs) = TNone"
proof (induction evs arbitrary: s)
  case Nil
  then show ?case by simp
next
  case (Cons ev evs)
  from Cons.prems(2) have nd: "isPointerDown ev = False" and rest: "filter isPointerDown evs = []"
    by (simp_all split: if_splits)
  have "target (step c s ev) = TNone" using Cons.prems(1) nd by (rule step_keeps_none)
  then show ?case using Cons.IH rest by simp
qed

lemma sqrt_312500: "sqrt 312500 = 250 * sqrt 5"
proof -
  have "sqrt 312500 = sqrt (250\<^sup>2 * 5)" by simp
  also have "\<dots> = 250 * sqrt 5" by (simp only: real_sqrt_mult real_sqrt_abs)
  finally show ?thesis .
qed

lemma ghost_BR:
  "ghostBallForPocket \<lparr>x = 500, y = 250\<rparr> (mkPocket ''BR'' 1000 500) =
     \<lparr>x = 500 - 48 / sqrt 5, y = 250 - 24 / sqrt 5\<rparr>"
  by (simp add: ghostBallForPocket_def Let_def sub_def add_def mul_def norm_pt_def len_def
      hypot_def mkPocket_def BALL_R_def sqrt_312500)

lemma angle_zero_left: "x z = 0 \<Longrightarrow> y z = 0 \<Longrightarrow> angleBetween z v = pi / 2"
  by (simp add: angleBetween_def Let_def norm_pt_zero dot_def clamp_def)
lemma angle_zero_right: "x z = 0 \<Longrightarrow> y z = 0 \<Longrightarrow> angleBetween v z = pi / 2"
  by (simp add: angleBetween_def Let_def norm_pt_zero dot_def clamp_def)

lemma hypot_scale: "hypot (a * k) (b * k) = \<bar>k\<bar> * hypot a b"
proof -
  have "(a * k)\<^sup>2 + (b * k)\<^sup>2 = k\<^sup>2 * (a\<^sup>2 + b\<^sup>2)"
    by (simp add: power_mult_distrib algebra_simps)
  then show ?thesis by (simp add: hypot_def real_sqrt_mult)
qed

lemma len_mul: "len (mul v k) = \<bar>k\<bar> * len v"
  by (simp add: len_def mul_def hypot_scale)

lemma dist_pt_len_sub: "dist_pt a b = len (sub a b)"
  by (simp add: dist_pt_def Let_def len_def sub_def)

lemma clamp_bounds: "mn \<le> mx \<Longrightarrow> mn \<le> clamp v mn mx \<and> clamp v mn mx \<le> mx"
  by (simp add: clamp_def)

lemma clampPointToInner_inInterior: "inInterior (clampPointToInner p)"
  by (simp add: inInterior_def clampPointToInner_def clamp_def TABLE_W_def TABLE_H_def BALL_R_def)

lemma clampPointToInner_id: "inInterior p \<Longrightarrow> clampPointToInner p = p"
  by (simp add: inInterior_def clampPointToInner_def clamp_def)

lemma ballsInside_initial: "ballsInside initial_state"
  by (simp add: ballsInside_def initial_state_def inInterior_def TABLE_W_def TABLE_H_def BALL_R_def)

lemma ballsInside_down: "ballsInside s \<Longrightarrow> ballsInside (onPointerDown c p s)"
  by (simp add: ballsInside_def onPointerDown_def Let_def split: option.splits)

lemma ballsInside_move: "ballsInside s \<Longrightarrow> ballsInside (onPointerMove c p s)"
  by (simp add: ballsInside_def onPointerMove_def clampPointToInner_inInterior
      split: option.splits DragTarget.splits)

lemma ballsInside_up: "ballsInside s \<Longrightarrow> ballsInside (onPointerUp s)"
  by (simp add: ballsInside_def onPointerUp_def)

lemma ballsInside_reset: "ballsInside (reset s)"
  by (simp add: ballsInside_def reset_def inInterior_def TABLE_W_def TABLE_H_def BALL_R_def)

lemma ballsInside_setMode: "ballsInside s \<Longrightarrow> ballsInside (setMode m s)"
  by (simp add: ballsInside_def setMode_def)

lemma ballsInside_step: "ballsInside s \<Longrightarrow> ballsInside (step c s ev)"
  by (cases ev)
    (simp_all add: ballsInside_down ballsInside_move ballsInside_up ballsInside_reset
      ballsInside_setMode)

lemma ballsInside_foldl: "ballsInside s \<Longrightarrow> ballsInside (foldl (step c) s evs)"
  by (induction evs arbitrary: s) (simp_all add: ballsInside_step)

lemma clamp_range: "- 1 \<le> clamp v (- 1) 1 \<and> clamp v (- 1) 1 \<le> 1"
  by (simp add: clamp_def)

lemma angleBetween_range: "0 \<le> angleBetween a b \<and> angleBetween a b \<le> pi"
  using clamp_range [of "dot (norm_pt a) (norm_pt b)"]
  by (simp add: angleBetween_def Let_def arccos_lbound arccos_ubound)

lemma clampToRail_700_10:
  "clampToRail \<lparr>x = 700, y = 10\<rparr> = \<lparr>rail_point = \<lparr>x = 700, y = 0\<rparr>, edge = EdgeTop\<rparr>"
  by (simp add: clampToRail_def Let_def TABLE_W_def TABLE_H_def clamp_def)

lemma min4_eq_iff:
  fixes a b c d :: real
  shows "min (min (min a b) c) d = a \<longleftrightarrow> a \<le> b \<and> a \<le> c \<and> a \<le> d"
    and "min (min (min a b) c) d = b \<longleftrightarrow> b \<le> a \<and> b \<le> c \<and> b \<le> d"
    and "min (min (min a b) c) d = c \<longleftrightarrow> c \<le> a \<and> c \<le> b \<and> c \<le> d"
  by (auto simp add: min_def)

lemma clampToRail_cases:
  "clampToRail p =
     (if y p \<le> TABLE_H - y p \<and> y p \<le> x p \<and> y p \<le> TABLE_W - x p
      then \<lparr>rail_point = projectToEdge p EdgeTop, edge = EdgeTop\<rparr>
      else if TABLE_H - y p \<le> y p \<and> TABLE_H - y p \<le> x p \<and> TABLE_H - y p \<le> TABLE_W - x p
      then \<lparr>rail_point = projectToEdge p EdgeBottom, edge = EdgeBottom\<rparr>
      else if x p \<le> y p \<and> x p \<le> TABLE_H - y p \<and> x p \<le> TABLE_W - x p
      then \<lparr>rail_point = projectToEdge p EdgeLeft, edge = EdgeLeft\<rparr>
      else \<lparr>rail_point = projectToEdge p EdgeRight, edge = EdgeRight\<rparr>)"
  unfolding clampToRail_def Let_def min4_eq_iff by simp

lemma firstMinimal_cases:
  "firstMinimal d edgeOrder =
     Some (if d EdgeTop \<le> d EdgeBottom \<and> d EdgeTop \<le> d EdgeLeft \<and> d EdgeTop \<le> d EdgeRight
           then EdgeTop
           else if d EdgeBottom \<le> d EdgeTop \<and> d EdgeBottom \<le> d EdgeLeft \<and>
                   d EdgeBottom \<le> d EdgeRight
           then EdgeBottom
           else if d EdgeLeft \<le> d EdgeTop \<and> d EdgeLeft \<le> d EdgeBottom \<and>
                   d EdgeLeft \<le> d EdgeRight
           then EdgeLeft
           else EdgeRight)"
  unfolding firstMinimal_def edgeOrder_def by auto

lemma clampToRail_signed: "Some (clampToRail p) = nearestRailBy edgeOffset p"
  by (simp add: clampToRail_cases nearestRailBy_def firstMinimal_cases)

lemma edgeDistance_inTable: "inTable p \<Longrightarrow> edgeDistance p = edgeOffset p"
proof
  fix e assume "inTable p"
  then show "edgeDistance p e = edgeOffset p e"
    by (cases e) (simp_all add: edgeDistance_def inTable_def)
qed

lemma clampToRail_minimal: "edgeOffset p (edge (clampToRail p)) \<le> edgeOffset p e"
  by (cases e) (auto simp add: clampToRail_cases)

lemma clampToRail_project: "rail_point (clampToRail p) = projectToEdge p (edge (clampToRail p))"
  by (simp add: clampToRail_cases)

lemma hitPocket_filter:
  "hitPocket p r pks =
     (case filter (\<lambda>pk. isInsideCircle p pk r) pks of [] \<Rightarrow> None | pk # _ \<Rightarrow> Some pk)"
  by (induction pks) simp_all

lemma hitPocket_None: "filter (\<lambda>pk. isInsideCircle p pk r) pks = [] \<Longrightarrow> hitPocket p r pks = None"
  by (simp add: hitPocket_filter)

lemma hitPocket_Some:
  "filter (\<lambda>pk. isInsideCircle p pk r) pks \<noteq> [] \<Longrightarrow>
   hitPocket p r pks = Some (hd (filter (\<lambda>pk. isInsideCircle p pk r) pks))"
  by (simp add: hitPocket_filter split: list.splits)

lemma hypot_le_iff: "0 \<le> r \<Longrightarrow> hypot a b \<le> r \<longleftrightarrow> a\<^sup>2 + b\<^sup>2 \<le> r\<^sup>2"
proof -
  assume r: "0 \<le> r"
  have "hypot a b \<le> r \<longleftrightarrow> sqrt (a\<^sup>2 + b\<^sup>2) \<le> sqrt (r\<^sup>2)"
    using r by (simp add: hypot_def)
  then show ?thesis by (simp only: real_sqrt_le_iff)
qed

lemma inside_iff: "0 \<le> r \<Longrightarrow> isInsideCircle p c r \<longleftrightarrow> (x p - x c)\<^sup>2 + (y p - y c)\<^sup>2 \<le> r\<^sup>2"
  by (simp add: isInsideCircle_def dist_pt_def Let_def hypot_le_iff)

lemmas ev = pockets_def mkPocket_def inside_iff TABLE_W_def TABLE_H_def BALL_R_def HIT_SCALE_def
  RAIL_HIT_HALF_def initial_state_def clampToRail_def Let_def clamp_def power2_eq_square

subsection \<open>Reachable states keep the rail marker in the table and a valid pocket\<close>

lemma hitPocket_mem: "hitPocket p r pks = Some pk \<Longrightarrow> pk \<in> set pks"
  by (induction pks) (simp_all split: if_splits)

lemma wellFormed_initial: "wellFormed initial_state"
  by (simp add: wellFormed_def initial_state_def inTable_def pockets_def mkPocket_def
      TABLE_W_def TABLE_H_def)

lemma wellFormed_step: "wellFormed s \<Longrightarrow> wellFormed (step c s ev)"
proof (cases ev)
  case (PointerDown p)
  assume "wellFormed s"
  then show ?thesis using PointerDown
    by (auto simp add: wellFormed_def onPointerDown_def Let_def dest: hitPocket_mem
        split: option.splits)
next
  case (PointerMove p)
  assume "wellFormed s"
  then show ?thesis using PointerMove
    by (auto simp add: wellFormed_def onPointerMove_def inTable_def clamp_def
        TABLE_W_def TABLE_H_def dest: hitPocket_mem split: option.splits DragTarget.splits)
next
  case PointerUp
  assume "wellFormed s"
  then show ?thesis using PointerUp by (simp add: wellFormed_def onPointerUp_def)
next
  case Reset
  assume "wellFormed s"
  then show ?thesis using Reset
    by (simp add: wellFormed_def reset_def inTable_def TABLE_W_def TABLE_H_def)
next
  case (SetMode m)
  assume "wellFormed s"
  then show ?thesis using SetMode by (simp add: wellFormed_def setMode_def)
qed

lemma wellFormed_foldl: "wellFormed s \<Longrightarrow> wellFormed (foldl (step c) s evs)"
  by (induction evs arbitrary: s) (simp_all add: wellFormed_step)

lemma wellFormed_run: "wellFormed (run c evs)"
  unfolding run_def by (rule wellFormed_foldl [OF wellFormed_initial])

lemma railPoint_inTable_run: "inTable (railPoint (run c evs))"
  using wellFormed_run [of c evs] by (simp add: wellFormed_def)

lemma selectedPocket_run: "\<exists>pk. selectedPocket (run c evs) = Some pk"
proof -
  have "selectedPocketId (run c evs) \<in> set (map pocket_id pockets)"
    using wellFormed_run [of c evs] by (simp add: wellFormed_def)
  then have "\<exists>pk \<in> set pockets. pocket_id pk = selectedPocketId (run c evs)" by auto
  then have "find (\<lambda>p. pocket_id p = selectedPocketId (run c evs)) pockets \<noteq> None"
    by (auto simp add: find_None_iff)
  then show ?thesis by (auto simp add: selectedPocket_def)
qed

section \<open>Vector mathematics\<close>

text \<open>
  C5 (as the code has it). The claim that a zero-length vector normalizes to a vector of
  length 1 fails: \<^verbatim>\<open>norm\<close> divides by 1 in place of the length 0, so the zero vector is
  returned unchanged and its length stays 0.
\<close>

theorem norm_zero_not_unit:
  "len \<lparr>x = 0, y = 0\<rparr> = 0 \<and> len (norm_pt \<lparr>x = 0, y = 0\<rparr>) \<noteq> 1"
  by (simp add: norm_pt_def len_def hypot_def)

text \<open>
  C5 (amended). Applied to a zero-length vector, \<^verbatim>\<open>norm\<close> returns that vector itself, the
  zero vector of length 0: the length is replaced by the divisor 1, so nothing is divided
  by zero.
\<close>

theorem norm_zero_vector:
  "len v = 0 \<Longrightarrow>
     norm_pt v = \<lparr>x = 0, y = 0\<rparr> \<and> x (norm_pt v) = x v \<and> y (norm_pt v) = y v \<and>
     len (norm_pt v) = 0"
proof -
  assume z: "len v = 0"
  then have xy: "x v = 0" "y v = 0" by (simp_all add: len_zero_iff)
  have n: "norm_pt v = \<lparr>x = 0, y = 0\<rparr>" using xy by (rule norm_pt_zero)
  show ?thesis using xy by (simp add: n len_zero_iff)
qed

theorem norm_zero_vector_witness:
  "len \<lparr>x = 0, y = 0\<rparr> = 0 \<and> norm_pt \<lparr>x = 0, y = 0\<rparr> = \<lparr>x = 0, y = 0\<rparr> \<and>
   len (norm_pt \<lparr>x = 0, y = 0\<rparr>) = 0"
proof -
  have h: "len \<lparr>x = 0, y = 0\<rparr> = 0" by (simp add: len_zero_iff)
  show ?thesis using h norm_zero_vector [OF h] by simp
qed

text \<open>
  C8. \<^verbatim>\<open>reflect(v, n)\<close> is \<open>v - 2 * dot v (normalize n) * normalize n\<close>. For a
  nonzero \<open>n\<close> the normalized \<open>n\<close> has length 1 and the reflection is
  \<open>v - 2 * (v \<bullet> n) / (n \<bullet> n) * n\<close> in coordinates. The normal of the top edge is \<open>(0, 1)\<close>,
  and the incoming vector \<open>(1, -1)\<close> reflects there to exactly \<open>(1, 1)\<close>.
\<close>

theorem reflect_formula:
  "reflect v n = sub v (mul (norm_pt n) (2 * dot v (norm_pt n))) \<and>
   (len n \<noteq> 0 \<longrightarrow>
      len (norm_pt n) = 1 \<and>
      reflect v n =
        \<lparr>x = x v - 2 * (x v * x n + y v * y n) * x n / ((x n)\<^sup>2 + (y n)\<^sup>2),
         y = y v - 2 * (x v * x n + y v * y n) * y n / ((x n)\<^sup>2 + (y n)\<^sup>2)\<rparr>) \<and>
   edgeNormal EdgeTop = \<lparr>x = 0, y = 1\<rparr> \<and>
   reflect \<lparr>x = 1, y = - 1\<rparr> (edgeNormal EdgeTop) = \<lparr>x = 1, y = 1\<rparr>"
proof -
  have a: "reflect v n = sub v (mul (norm_pt n) (2 * dot v (norm_pt n)))"
    by (simp add: reflect_def Let_def)
  have b: "reflect \<lparr>x = 1, y = - 1\<rparr> (edgeNormal EdgeTop) = \<lparr>x = 1, y = 1\<rparr>"
    by (simp add: reflect_def Let_def sub_def mul_def dot_def norm_pt_def len_def hypot_def)
  show ?thesis using a b reflect_components [of n v] len_norm_pt [of n] by simp
qed

theorem reflect_formula_witness:
  "len \<lparr>x = 0, y = 1\<rparr> \<noteq> 0 \<and>
   reflect \<lparr>x = 1, y = - 1\<rparr> \<lparr>x = 0, y = 1\<rparr> = \<lparr>x = 1, y = 1\<rparr> \<and>
   len (norm_pt \<lparr>x = 0, y = 1\<rparr>) = 1"
proof -
  have h: "len \<lparr>x = 0, y = 1\<rparr> \<noteq> 0" by (simp add: len_def hypot_def)
  note t = reflect_formula [of "\<lparr>x = 1, y = - 1\<rparr>" "\<lparr>x = 0, y = 1\<rparr>"]
  from t h have a: "len (norm_pt \<lparr>x = 0, y = 1\<rparr>) = 1" by blast
  from t have "reflect \<lparr>x = 1, y = - 1\<rparr> (edgeNormal EdgeTop) = \<lparr>x = 1, y = 1\<rparr>" by blast
  then have b: "reflect \<lparr>x = 1, y = - 1\<rparr> \<lparr>x = 0, y = 1\<rparr> = \<lparr>x = 1, y = 1\<rparr>" by simp
  show ?thesis using h a b by blast
qed

text \<open>
  C10. The angle between the zero vector and any vector is \<open>\<pi> / 2\<close>, in either argument
  order, since the zero vector normalizes to itself and the clamped dot product is 0.
  Hence the cut angle is 90 degrees when the cue ball is on the object ball or the selected
  pocket is on the object ball, and the mismatch angle is 90 degrees when the object ball is
  on the clamped rail point.
\<close>

theorem zero_vector_angle_90:
  "angleBetween \<lparr>x = 0, y = 0\<rparr> v = pi / 2 \<and>
   angleBetween v \<lparr>x = 0, y = 0\<rparr> = pi / 2 \<and>
   (c = ob \<longrightarrow> cutAngleDeg (pocketData c ob sp) = 90) \<and>
   (x sp = x ob \<and> y sp = y ob \<longrightarrow> cutAngleDeg (pocketData c ob sp) = 90) \<and>
   (ob = rail_point (clampToRail r) \<longrightarrow> mismatchDeg (railData r c ob) = 90)"
proof -
  have a: "c = ob \<Longrightarrow> cutAngleDeg (pocketData c ob sp) = 90"
    by (simp add: pocketData_def Let_def angle_zero_right sub_def)
  have b: "x sp = x ob \<and> y sp = y ob \<Longrightarrow> cutAngleDeg (pocketData c ob sp) = 90"
    by (simp add: pocketData_def Let_def angle_zero_left sub_def)
  have d: "ob = rail_point (clampToRail r) \<Longrightarrow> mismatchDeg (railData r c ob) = 90"
    by (simp add: railData_def Let_def angle_zero_right sub_def)
  show ?thesis using a b d by (simp add: angle_zero_left angle_zero_right)
qed

theorem zero_vector_angle_90_witness:
  "cutAngleDeg (pocketData \<lparr>x = 600, y = 200\<rparr> \<lparr>x = 600, y = 200\<rparr> (mkPocket ''BR'' 1000 500)) = 90 \<and>
   cutAngleDeg (pocketData \<lparr>x = 250, y = 350\<rparr> \<lparr>x = 1000, y = 500\<rparr> (mkPocket ''BR'' 1000 500)) = 90 \<and>
   rail_point (clampToRail \<lparr>x = 700, y = 10\<rparr>) = \<lparr>x = 700, y = 0\<rparr> \<and>
   mismatchDeg (railData \<lparr>x = 700, y = 10\<rparr> \<lparr>x = 250, y = 350\<rparr> \<lparr>x = 700, y = 0\<rparr>) = 90"
proof -
  have r: "rail_point (clampToRail \<lparr>x = 700, y = 10\<rparr>) = \<lparr>x = 700, y = 0\<rparr>"
    by (simp add: clampToRail_def Let_def TABLE_W_def TABLE_H_def clamp_def)
  show ?thesis
    using r
      zero_vector_angle_90 [of "\<lparr>x = 0, y = 0\<rparr>" "\<lparr>x = 600, y = 200\<rparr>" "\<lparr>x = 600, y = 200\<rparr>" "mkPocket ''BR'' 1000 500" "\<lparr>x = 700, y = 10\<rparr>"]
      zero_vector_angle_90 [of "\<lparr>x = 0, y = 0\<rparr>" "\<lparr>x = 250, y = 350\<rparr>" "\<lparr>x = 1000, y = 500\<rparr>" "mkPocket ''BR'' 1000 500" "\<lparr>x = 700, y = 10\<rparr>"]
      zero_vector_angle_90 [of "\<lparr>x = 0, y = 0\<rparr>" "\<lparr>x = 250, y = 350\<rparr>" "\<lparr>x = 700, y = 0\<rparr>" "mkPocket ''BR'' 1000 500" "\<lparr>x = 700, y = 10\<rparr>"]
    by (simp add: mkPocket_def)
qed

section \<open>Aim solver\<close>

text \<open>
  C1. For an object ball and a pocket at different positions, the ghost ball of the pocket
  mode is \<open>object + normalize (object - pocket) * 2r\<close> with \<open>r = 12\<close>. The normalized
  direction has length 1; the ghost ball is on the ray from the pocket through the object
  (its offset from the pocket is the object's offset scaled by \<open>1 + 2r / d > 1\<close>, where
  \<open>d\<close> is the distance from object to pocket), at distance exactly \<open>2r\<close> from the object and
  \<open>d + 2r\<close> from the pocket. The witness is the object \<open>(500, 250)\<close> with the pocket BR at
  \<open>(1000, 500)\<close>.
\<close>

theorem ghost_ball_position:
  fixes ob :: point and pk :: pocket
  assumes ne: "x ob \<noteq> x pk \<or> y ob \<noteq> y pk"
  shows "ghostBallForPocket ob pk = add ob (mul (norm_pt (sub ob pk)) (2 * BALL_R)) \<and>
     ghost (pocketData c ob pk) = ghostBallForPocket ob pk \<and>
     BALL_R = 12 \<and>
     len (norm_pt (sub ob pk)) = 1 \<and>
     0 < dist_pt ob pk \<and>
     sub (ghostBallForPocket ob pk) pk = mul (sub ob pk) (1 + 2 * BALL_R / dist_pt ob pk) \<and>
     dist_pt (ghostBallForPocket ob pk) ob = 2 * BALL_R \<and>
     dist_pt (ghostBallForPocket ob pk) pk = dist_pt ob pk + 2 * BALL_R"
proof -
  define v where "v = sub ob pk"
  define d where "d = len v"
  define g where "g = ghostBallForPocket ob pk"
  have vnz: "len v \<noteq> 0" using ne by (simp add: len_zero_iff v_def sub_def)
  have dpos: "0 < d" using vnz hypot_nonneg [of "x v" "y v"] by (simp add: d_def len_def)
  have dd: "dist_pt ob pk = d" by (simp add: dist_pt_len_sub v_def d_def)
  have unit: "len (norm_pt v) = 1" using vnz by (rule len_norm_pt)
  have gdef: "g = add ob (mul (norm_pt v) (2 * BALL_R))"
    by (simp add: g_def ghostBallForPocket_def Let_def v_def)
  have pd: "ghost (pocketData c ob pk) = g"
    by (simp add: pocketData_def Let_def g_def)
  have nv: "norm_pt v = \<lparr>x = x v / d, y = y v / d\<rparr>"
    using vnz by (simp add: norm_pt_def Let_def d_def)
  have xv: "x v = x ob - x pk" and yv: "y v = y ob - y pk" by (simp_all add: v_def sub_def)
  have gx: "x g = x ob + x v / d * (2 * BALL_R)" and gy: "y g = y ob + y v / d * (2 * BALL_R)"
    by (simp_all add: gdef nv add_def mul_def)
  have ray: "sub g pk = mul v (1 + 2 * BALL_R / d)"
    using dpos by (simp add: sub_def mul_def gx gy xv yv field_simps)
  have "sub g ob = mul (norm_pt v) (2 * BALL_R)"
    by (simp add: sub_def gx gy nv mul_def)
  then have "dist_pt g ob = \<bar>2 * BALL_R\<bar> * len (norm_pt v)"
    by (simp only: dist_pt_len_sub len_mul)
  then have d1: "dist_pt g ob = 2 * BALL_R" using unit by (simp add: BALL_R_def)
  have "dist_pt g pk = \<bar>1 + 2 * BALL_R / d\<bar> * d"
    by (simp only: dist_pt_len_sub ray len_mul d_def)
  also have "\<dots> = (1 + 2 * BALL_R / d) * d" using dpos by (simp add: BALL_R_def)
  also have "\<dots> = d + 2 * BALL_R" using dpos by (simp add: field_simps)
  finally have d2: "dist_pt g pk = d + 2 * BALL_R" .
  show ?thesis
    using gdef pd unit dpos ray d1 d2 BALL_R_def unfolding dd
    unfolding g_def [symmetric] v_def [symmetric] by blast
qed

theorem ghost_ball_position_witness:
  "x \<lparr>x = 500, y = 250\<rparr> \<noteq> x (mkPocket ''BR'' 1000 500) \<and>
   mkPocket ''BR'' 1000 500 \<in> set pockets \<and>
   ghostBallForPocket \<lparr>x = 500, y = 250\<rparr> (mkPocket ''BR'' 1000 500) =
     \<lparr>x = 500 - 48 / sqrt 5, y = 250 - 24 / sqrt 5\<rparr> \<and>
   sub (ghostBallForPocket \<lparr>x = 500, y = 250\<rparr> (mkPocket ''BR'' 1000 500)) (mkPocket ''BR'' 1000 500)
     = mul (sub \<lparr>x = 500, y = 250\<rparr> (mkPocket ''BR'' 1000 500))
         (1 + 2 * BALL_R / dist_pt \<lparr>x = 500, y = 250\<rparr> (mkPocket ''BR'' 1000 500)) \<and>
   dist_pt (ghostBallForPocket \<lparr>x = 500, y = 250\<rparr> (mkPocket ''BR'' 1000 500)) \<lparr>x = 500, y = 250\<rparr>
     = 2 * BALL_R \<and>
   dist_pt (ghostBallForPocket \<lparr>x = 500, y = 250\<rparr> (mkPocket ''BR'' 1000 500)) (mkPocket ''BR'' 1000 500)
     = dist_pt \<lparr>x = 500, y = 250\<rparr> (mkPocket ''BR'' 1000 500) + 2 * BALL_R"
proof -
  have h: "x \<lparr>x = 500, y = 250\<rparr> \<noteq> x (mkPocket ''BR'' 1000 500)"
    by (simp add: mkPocket_def)
  have m: "mkPocket ''BR'' 1000 500 \<in> set pockets"
    by (simp add: pockets_def TABLE_W_def TABLE_H_def)
  note t = ghost_ball_position [OF disjI1, OF h]
  show ?thesis using h m t ghost_BR by blast
qed

text \<open>
  C2 (as the code has it). The returned mismatch is not the value of \<^verbatim>\<open>angleBetween\<close>:
  for the rail marker \<open>(700, 10)\<close>, the cue ball at \<open>(600, 100)\<close> and the object ball at
  \<open>(650, 50)\<close> the marker clamps to \<open>(700, 0)\<close> on the top edge, the reflected vector is
  \<open>(100, 100)\<close>, the vector to the object is \<open>(-50, 50)\<close>, the angle between them is
  \<open>\<pi> / 2\<close> and the returned mismatch is 90.
\<close>

theorem rail_mismatch_not_radians:
  "mismatchDeg (railData \<lparr>x = 700, y = 10\<rparr> \<lparr>x = 600, y = 100\<rparr> \<lparr>x = 650, y = 50\<rparr>) = 90 \<and>
   angleBetween
     (reflect (sub (rail_point (clampToRail \<lparr>x = 700, y = 10\<rparr>)) \<lparr>x = 600, y = 100\<rparr>)
        (edgeNormal (edge (clampToRail \<lparr>x = 700, y = 10\<rparr>))))
     (sub \<lparr>x = 650, y = 50\<rparr> (rail_point (clampToRail \<lparr>x = 700, y = 10\<rparr>))) = pi / 2 \<and>
   mismatchDeg (railData \<lparr>x = 700, y = 10\<rparr> \<lparr>x = 600, y = 100\<rparr> \<lparr>x = 650, y = 50\<rparr>) \<noteq>
   angleBetween
     (reflect (sub (rail_point (clampToRail \<lparr>x = 700, y = 10\<rparr>)) \<lparr>x = 600, y = 100\<rparr>)
        (edgeNormal (edge (clampToRail \<lparr>x = 700, y = 10\<rparr>))))
     (sub \<lparr>x = 650, y = 50\<rparr> (rail_point (clampToRail \<lparr>x = 700, y = 10\<rparr>)))"
proof -
  have refl: "reflect (sub \<lparr>x = 700, y = 0\<rparr> \<lparr>x = 600, y = 100\<rparr>) \<lparr>x = 0, y = 1\<rparr> = \<lparr>x = 100, y = 100\<rparr>"
    by (simp add: reflect_def Let_def sub_def mul_def dot_def norm_pt_def len_def hypot_def)
  have ang: "angleBetween \<lparr>x = 100, y = 100\<rparr> (sub \<lparr>x = 650, y = 50\<rparr> \<lparr>x = 700, y = 0\<rparr>) = pi / 2"
    by (simp add: angleBetween_def Let_def sub_def dot_def norm_pt_def clamp_def)
  have a: "angleBetween
     (reflect (sub (rail_point (clampToRail \<lparr>x = 700, y = 10\<rparr>)) \<lparr>x = 600, y = 100\<rparr>)
        (edgeNormal (edge (clampToRail \<lparr>x = 700, y = 10\<rparr>))))
     (sub \<lparr>x = 650, y = 50\<rparr> (rail_point (clampToRail \<lparr>x = 700, y = 10\<rparr>))) = pi / 2"
    by (simp add: clampToRail_700_10 refl ang)
  have d: "mismatchDeg (railData \<lparr>x = 700, y = 10\<rparr> \<lparr>x = 600, y = 100\<rparr> \<lparr>x = 650, y = 50\<rparr>) = 90"
    by (simp add: railData_def Let_def clampToRail_700_10 refl ang)
  have "pi / 2 < 90" using pi_less_4 by simp
  then show ?thesis using a d by simp
qed

text \<open>
  C2 (amended). For every cue position, object position and raw rail marker, the rail
  computation first clamps the marker to its nearest rail edge, giving the rail point and
  the edge; with \<open>incoming = railPoint - cue\<close>, \<open>normal = edgeNormal edge\<close>,
  \<open>reflected = reflect incoming normal\<close> and \<open>toObject = object - railPoint\<close> it returns
  these and the mismatch \<open>angleBetween reflected toObject * 180 / \<pi>\<close>, the angle in
  degrees, which lies between 0 and 180.
\<close>

theorem rail_mismatch_degrees:
  "rp (railData r c ob) = rail_point (clampToRail r) \<and>
   rd_edge (railData r c ob) = edge (clampToRail r) \<and>
   incoming (railData r c ob) = sub (rail_point (clampToRail r)) c \<and>
   normal (railData r c ob) = edgeNormal (edge (clampToRail r)) \<and>
   reflected (railData r c ob) =
     reflect (sub (rail_point (clampToRail r)) c) (edgeNormal (edge (clampToRail r))) \<and>
   toObj (railData r c ob) = sub ob (rail_point (clampToRail r)) \<and>
   mismatchDeg (railData r c ob) =
     angleBetween (reflect (sub (rail_point (clampToRail r)) c) (edgeNormal (edge (clampToRail r))))
       (sub ob (rail_point (clampToRail r))) * 180 / pi \<and>
   0 \<le> mismatchDeg (railData r c ob) \<and> mismatchDeg (railData r c ob) \<le> 180"
proof -
  define A where "A = angleBetween (reflect (sub (rail_point (clampToRail r)) c) (edgeNormal (edge (clampToRail r))))
       (sub ob (rail_point (clampToRail r)))"
  have m: "mismatchDeg (railData r c ob) = A * 180 / pi"
    by (simp add: railData_def Let_def A_def)
  have rng: "0 \<le> A \<and> A \<le> pi" unfolding A_def by (rule angleBetween_range)
  have lo: "0 \<le> A * 180 / pi" using rng by simp
  have "A * 180 \<le> pi * 180" using rng by simp
  then have hi: "A * 180 / pi \<le> 180" by (simp add: pos_divide_le_eq mult.commute)
  have flds: "rp (railData r c ob) = rail_point (clampToRail r) \<and>
   rd_edge (railData r c ob) = edge (clampToRail r) \<and>
   incoming (railData r c ob) = sub (rail_point (clampToRail r)) c \<and>
   normal (railData r c ob) = edgeNormal (edge (clampToRail r)) \<and>
   reflected (railData r c ob) =
     reflect (sub (rail_point (clampToRail r)) c) (edgeNormal (edge (clampToRail r))) \<and>
   toObj (railData r c ob) = sub ob (rail_point (clampToRail r))"
    by (simp add: railData_def Let_def)
  show ?thesis using flds m lo hi unfolding A_def by simp
qed

section \<open>Table geometry\<close>

text \<open>
  C3 (as the code has it). The edge is not selected by the distance from the point to the
  lines of the edges: for the point \<open>(500, -700)\<close> above the table the code answers the
  top edge with the point \<open>(500, 0)\<close>, though the line \<open>y = 0\<close> is at distance 700 and the
  line \<open>x = 0\<close> at distance 500; selecting by distance gives the left edge and \<open>(0, 0)\<close>.
\<close>

theorem nearest_rail_not_line_distance:
  "clampToRail \<lparr>x = 500, y = - 700\<rparr> = \<lparr>rail_point = \<lparr>x = 500, y = 0\<rparr>, edge = EdgeTop\<rparr> \<and>
   edgeDistance \<lparr>x = 500, y = - 700\<rparr> EdgeTop = 700 \<and>
   edgeDistance \<lparr>x = 500, y = - 700\<rparr> EdgeLeft = 500 \<and>
   clampToNearestRail_spec \<lparr>x = 500, y = - 700\<rparr> =
     Some \<lparr>rail_point = \<lparr>x = 0, y = 0\<rparr>, edge = EdgeLeft\<rparr> \<and>
   clampToNearestRail_spec \<lparr>x = 500, y = - 700\<rparr> \<noteq> Some (clampToRail \<lparr>x = 500, y = - 700\<rparr>)"
proof -
  have a: "clampToRail \<lparr>x = 500, y = - 700\<rparr> = \<lparr>rail_point = \<lparr>x = 500, y = 0\<rparr>, edge = EdgeTop\<rparr>"
    by (simp add: clampToRail_def Let_def TABLE_W_def TABLE_H_def clamp_def)
  have b: "clampToNearestRail_spec \<lparr>x = 500, y = - 700\<rparr> =
     Some \<lparr>rail_point = \<lparr>x = 0, y = 0\<rparr>, edge = EdgeLeft\<rparr>"
    by (simp add: clampToNearestRail_spec_def nearestRailBy_def firstMinimal_def edgeOrder_def
        edgeDistance_def TABLE_W_def TABLE_H_def clamp_def)
  show ?thesis using a b by (simp add: edgeDistance_def)
qed

text \<open>
  C3 (amended). For every point \<open>p\<close>, \<^verbatim>\<open>clampToRail\<close> computes the four signed offsets
  \<open>y\<close>, \<open>H - y\<close>, \<open>x\<close>, \<open>W - x\<close>, selects the edge with the least offset, the first one in
  the order top, bottom, left, right among equals, and returns \<open>p\<close> projected onto that
  edge, the coordinate along the edge clamped to \<open>[0, W]\<close> or \<open>[0, H]\<close>, with the edge.
  For a point within the table rectangle \<open>[0, W] \<times> [0, H]\<close> the offsets are the distances
  to the four edge lines, and the result is the nearest edge by distance.
\<close>

theorem nearest_rail_signed_offsets:
  "nearestRailBy edgeOffset p = Some (clampToRail p) \<and>
   rail_point (clampToRail p) = projectToEdge p (edge (clampToRail p)) \<and>
   (\<forall>e. edgeOffset p (edge (clampToRail p)) \<le> edgeOffset p e) \<and>
   (inTable p \<longrightarrow> clampToNearestRail_spec p = Some (clampToRail p))"
proof -
  have "inTable p \<Longrightarrow> clampToNearestRail_spec p = Some (clampToRail p)"
    by (simp add: clampToNearestRail_spec_def nearestRailBy_def edgeDistance_inTable
        clampToRail_cases firstMinimal_cases)
  then show ?thesis
    using clampToRail_signed [of p, symmetric] clampToRail_project [of p]
      clampToRail_minimal [of p]
    by blast
qed

theorem nearest_rail_signed_offsets_witness:
  "inTable \<lparr>x = 700, y = 10\<rparr> \<and>
   clampToNearestRail_spec \<lparr>x = 700, y = 10\<rparr> =
     Some \<lparr>rail_point = \<lparr>x = 700, y = 0\<rparr>, edge = EdgeTop\<rparr> \<and>
   clampToRail \<lparr>x = 700, y = 10\<rparr> = \<lparr>rail_point = \<lparr>x = 700, y = 0\<rparr>, edge = EdgeTop\<rparr> \<and>
   inTable \<lparr>x = 250, y = 250\<rparr> \<and>
   clampToNearestRail_spec \<lparr>x = 250, y = 250\<rparr> =
     Some \<lparr>rail_point = \<lparr>x = 250, y = 0\<rparr>, edge = EdgeTop\<rparr> \<and>
   clampToRail \<lparr>x = 250, y = 250\<rparr> = \<lparr>rail_point = \<lparr>x = 250, y = 0\<rparr>, edge = EdgeTop\<rparr>"
proof -
  have h1: "inTable \<lparr>x = 700, y = 10\<rparr>" and h2: "inTable \<lparr>x = 250, y = 250\<rparr>"
    by (simp_all add: inTable_def TABLE_W_def TABLE_H_def)
  have e1: "clampToRail \<lparr>x = 700, y = 10\<rparr> = \<lparr>rail_point = \<lparr>x = 700, y = 0\<rparr>, edge = EdgeTop\<rparr>"
    by (simp add: clampToRail_def Let_def TABLE_W_def TABLE_H_def clamp_def)
  have e2: "clampToRail \<lparr>x = 250, y = 250\<rparr> = \<lparr>rail_point = \<lparr>x = 250, y = 0\<rparr>, edge = EdgeTop\<rparr>"
    by (simp add: clampToRail_def Let_def TABLE_W_def TABLE_H_def clamp_def)
  from h1 nearest_rail_signed_offsets [of "\<lparr>x = 700, y = 10\<rparr>"]
  have s1: "clampToNearestRail_spec \<lparr>x = 700, y = 10\<rparr> = Some (clampToRail \<lparr>x = 700, y = 10\<rparr>)"
    by blast
  from h2 nearest_rail_signed_offsets [of "\<lparr>x = 250, y = 250\<rparr>"]
  have s2: "clampToNearestRail_spec \<lparr>x = 250, y = 250\<rparr> = Some (clampToRail \<lparr>x = 250, y = 250\<rparr>)"
    by blast
  show ?thesis using h1 h2 by (simp add: s1 s2 e1 e2)
qed

section \<open>The drag controller\<close>

text \<open>
  C7. After pointer-up the drag target is none, whatever the state was; pointer-up changes
  no position and no pocket selection, and every pointer-move that follows, one or many,
  leaves the state as pointer-up left it. More generally, after any events other than a
  pointer-down the target is still none and a pointer-move changes nothing.
\<close>

theorem pointer_up_ends_drag:
  "target (onPointerUp s) = TNone \<and>
   cue (onPointerUp s) = cue s \<and> obj (onPointerUp s) = obj s \<and>
   railPoint (onPointerUp s) = railPoint s \<and>
   selectedPocketId (onPointerUp s) = selectedPocketId s \<and>
   onPointerMove c p (onPointerUp s) = onPointerUp s \<and>
   foldl (\<lambda>t q. onPointerMove c q t) (onPointerUp s) ps = onPointerUp s \<and>
   (filter isPointerDown evs = [] \<longrightarrow>
      target (foldl (step c) (onPointerUp s) evs) = TNone \<and>
      onPointerMove c p (foldl (step c) (onPointerUp s) evs) = foldl (step c) (onPointerUp s) evs)"
proof -
  have t: "target (onPointerUp s) = TNone" by (simp add: onPointerUp_def)
  have f: "cue (onPointerUp s) = cue s \<and> obj (onPointerUp s) = obj s \<and>
   railPoint (onPointerUp s) = railPoint s \<and>
   selectedPocketId (onPointerUp s) = selectedPocketId s" by (simp add: onPointerUp_def)
  have g: "filter isPointerDown evs = [] \<Longrightarrow>
      target (foldl (step c) (onPointerUp s) evs) = TNone \<and>
      onPointerMove c p (foldl (step c) (onPointerUp s) evs) = foldl (step c) (onPointerUp s) evs"
    using steps_keep_none [OF t] move_none by blast
  show ?thesis using t f g move_none [OF t] moves_none [OF t] by blast
qed

theorem pointer_up_ends_drag_witness:
  "filter isPointerDown [PointerMove \<lparr>x = 1, y = 1\<rparr>, Reset, SetMode ModeRail1] = [] \<and>
   target (foldl (step False) (onPointerUp (initial_state\<lparr>target := TObj\<rparr>))
      [PointerMove \<lparr>x = 1, y = 1\<rparr>, Reset, SetMode ModeRail1]) = TNone \<and>
   onPointerMove False \<lparr>x = 2, y = 2\<rparr>
     (foldl (step False) (onPointerUp (initial_state\<lparr>target := TObj\<rparr>))
        [PointerMove \<lparr>x = 1, y = 1\<rparr>, Reset, SetMode ModeRail1]) =
     foldl (step False) (onPointerUp (initial_state\<lparr>target := TObj\<rparr>))
        [PointerMove \<lparr>x = 1, y = 1\<rparr>, Reset, SetMode ModeRail1] \<and>
   obj (onPointerMove False \<lparr>x = 2, y = 2\<rparr> (onPointerUp (initial_state\<lparr>target := TObj\<rparr>))) =
     \<lparr>x = 600, y = 200\<rparr>"
proof -
  have h: "filter isPointerDown [PointerMove \<lparr>x = 1, y = 1\<rparr>, Reset, SetMode ModeRail1] = []"
    by simp
  note t = pointer_up_ends_drag [where s = "initial_state\<lparr>target := TObj\<rparr>" and c = False
      and p = "\<lparr>x = 2, y = 2\<rparr>" and evs = "[PointerMove \<lparr>x = 1, y = 1\<rparr>, Reset, SetMode ModeRail1]"]
  from t h have a: "target (foldl (step False) (onPointerUp (initial_state\<lparr>target := TObj\<rparr>))
      [PointerMove \<lparr>x = 1, y = 1\<rparr>, Reset, SetMode ModeRail1]) = TNone \<and>
   onPointerMove False \<lparr>x = 2, y = 2\<rparr>
     (foldl (step False) (onPointerUp (initial_state\<lparr>target := TObj\<rparr>))
        [PointerMove \<lparr>x = 1, y = 1\<rparr>, Reset, SetMode ModeRail1]) =
     foldl (step False) (onPointerUp (initial_state\<lparr>target := TObj\<rparr>))
        [PointerMove \<lparr>x = 1, y = 1\<rparr>, Reset, SetMode ModeRail1]"
    by blast
  from t have "onPointerMove False \<lparr>x = 2, y = 2\<rparr> (onPointerUp (initial_state\<lparr>target := TObj\<rparr>))
     = onPointerUp (initial_state\<lparr>target := TObj\<rparr>)" by blast
  then have b: "obj (onPointerMove False \<lparr>x = 2, y = 2\<rparr> (onPointerUp (initial_state\<lparr>target := TObj\<rparr>))) =
     \<lparr>x = 600, y = 200\<rparr>"
    by (simp add: onPointerUp_def initial_state_def TABLE_W_def TABLE_H_def)
  show ?thesis using h a b by blast
qed

text \<open>
  C9. From every state, reset sets the cue ball to \<open>(250, 350)\<close>, the object ball to
  \<open>(600, 200)\<close> and the rail marker to \<open>(700, 10)\<close>, which are their values in the initial
  state, and leaves the selected pocket (and the mode and the drag target) unchanged.
\<close>

theorem reset_restores_defaults:
  "cue (reset s) = \<lparr>x = 250, y = 350\<rparr> \<and>
   obj (reset s) = \<lparr>x = 600, y = 200\<rparr> \<and>
   railPoint (reset s) = \<lparr>x = 700, y = 10\<rparr> \<and>
   cue (reset s) = cue initial_state \<and>
   obj (reset s) = obj initial_state \<and>
   railPoint (reset s) = railPoint initial_state \<and>
   selectedPocketId (reset s) = selectedPocketId s \<and>
   mode (reset s) = mode s \<and> target (reset s) = target s"
  by (simp add: reset_def initial_state_def TABLE_W_def TABLE_H_def)

text \<open>
  C4. In every state reached from the initial state by any sequence of pointer-down,
  pointer-move, pointer-up, reset and mode events, the cue ball and the object ball have
  \<open>12 \<le> x \<le> 988\<close> and \<open>12 \<le> y \<le> 488\<close>: the initial and the reset positions are in
  that box, a pointer-move changes a ball only to \<^verbatim>\<open>clampPointToInner\<close> of the pointer,
  and that is always in the box.
\<close>

theorem balls_stay_in_interior:
  "12 \<le> x (cue (run c evs)) \<and> x (cue (run c evs)) \<le> 988 \<and>
   12 \<le> y (cue (run c evs)) \<and> y (cue (run c evs)) \<le> 488 \<and>
   12 \<le> x (obj (run c evs)) \<and> x (obj (run c evs)) \<le> 988 \<and>
   12 \<le> y (obj (run c evs)) \<and> y (obj (run c evs)) \<le> 488 \<and>
   inInterior (cue initial_state) \<and> inInterior (obj initial_state) \<and>
   inInterior (cue (reset s)) \<and> inInterior (obj (reset s)) \<and>
   cue (onPointerMove c p s) = (if target s = TCue then clampPointToInner p else cue s) \<and>
   obj (onPointerMove c p s) = (if target s = TObj then clampPointToInner p else obj s) \<and>
   inInterior (clampPointToInner p)"
proof -
  have "ballsInside (run c evs)"
    unfolding run_def by (rule ballsInside_foldl [OF ballsInside_initial])
  then have a: "12 \<le> x (cue (run c evs)) \<and> x (cue (run c evs)) \<le> 988 \<and>
   12 \<le> y (cue (run c evs)) \<and> y (cue (run c evs)) \<le> 488 \<and>
   12 \<le> x (obj (run c evs)) \<and> x (obj (run c evs)) \<le> 988 \<and>
   12 \<le> y (obj (run c evs)) \<and> y (obj (run c evs)) \<le> 488"
    by (simp add: ballsInside_def inInterior_def TABLE_W_def TABLE_H_def BALL_R_def)
  have b: "inInterior (cue initial_state) \<and> inInterior (obj initial_state)"
    using ballsInside_initial by (simp add: ballsInside_def)
  have d: "inInterior (cue (reset s)) \<and> inInterior (obj (reset s))"
    using ballsInside_reset [of s] by (simp add: ballsInside_def)
  have e: "cue (onPointerMove c p s) = (if target s = TCue then clampPointToInner p else cue s) \<and>
   obj (onPointerMove c p s) = (if target s = TObj then clampPointToInner p else obj s)"
    by (simp add: onPointerMove_def split: DragTarget.splits option.splits)
  show ?thesis using a b d e clampPointToInner_inInterior [of p] by blast
qed

text \<open>
  C6. On pointer-down at \<open>p\<close> the target is decided in this order. The pockets whose hit
  circle (radius 20, or 26 for a coarse pointer) holds \<open>p\<close> are taken in the order of the
  pocket list; if there is one, the first becomes the target and the selected pocket.
  Otherwise the cue ball's circle (radius \<open>r\<close> times 1.4, or 2 for a coarse pointer) is
  tested, then the object ball's circle with the same radius, then the square of half
  side 14 (22 for a coarse pointer) around the clamped rail marker; if none holds \<open>p\<close> the
  target is none. Nothing else in the state changes.
\<close>

theorem pointer_down_priority:
  fixes isCoarse :: bool and p :: point and s :: state
  defines "hits \<equiv> filter (\<lambda>pk. isInsideCircle p pk (20 * (if isCoarse then 1.3 else 1))) pockets"
    and "onCue \<equiv> isInsideCircle p (cue s) (BALL_R * HIT_SCALE isCoarse)"
    and "onObj \<equiv> isInsideCircle p (obj s) (BALL_R * HIT_SCALE isCoarse)"
    and "onRail \<equiv>
          \<bar>x p - x (rail_point (clampToRail (railPoint s)))\<bar> \<le> RAIL_HIT_HALF isCoarse \<and>
          \<bar>y p - y (rail_point (clampToRail (railPoint s)))\<bar> \<le> RAIL_HIT_HALF isCoarse"
  shows "(hits \<noteq> [] \<longrightarrow>
            onPointerDown isCoarse p s =
              s\<lparr>target := TPocket (pocket_id (hd hits)), selectedPocketId := pocket_id (hd hits)\<rparr>) \<and>
         (hits = [] \<and> onCue \<longrightarrow> onPointerDown isCoarse p s = s\<lparr>target := TCue\<rparr>) \<and>
         (hits = [] \<and> \<not> onCue \<and> onObj \<longrightarrow> onPointerDown isCoarse p s = s\<lparr>target := TObj\<rparr>) \<and>
         (hits = [] \<and> \<not> onCue \<and> \<not> onObj \<and> onRail \<longrightarrow>
            onPointerDown isCoarse p s = s\<lparr>target := TRail\<rparr>) \<and>
         (hits = [] \<and> \<not> onCue \<and> \<not> onObj \<and> \<not> onRail \<longrightarrow>
            onPointerDown isCoarse p s = s\<lparr>target := TNone\<rparr>)"
proof -
  have rp: "rp (railData (railPoint s) (cue s) (obj s)) = rail_point (clampToRail (railPoint s))"
    by (simp add: railData_def Let_def)
  have some: "hits \<noteq> [] \<Longrightarrow>
     onPointerDown isCoarse p s =
       s\<lparr>target := TPocket (pocket_id (hd hits)), selectedPocketId := pocket_id (hd hits)\<rparr>"
    unfolding hits_def onPointerDown_def by (simp add: hitPocket_Some)
  have none: "hits = [] \<Longrightarrow>
     onPointerDown isCoarse p s =
       (if onCue then s\<lparr>target := TCue\<rparr>
        else if onObj then s\<lparr>target := TObj\<rparr>
        else if onRail then s\<lparr>target := TRail\<rparr> else s\<lparr>target := TNone\<rparr>)"
    unfolding hits_def onPointerDown_def onCue_def onObj_def onRail_def
    by (simp add: hitPocket_None rp Let_def)
  show ?thesis using some none by simp
qed

theorem pointer_down_priority_witness:
  "onPointerDown False \<lparr>x = 12, y = 12\<rparr> (initial_state\<lparr>cue := \<lparr>x = 12, y = 12\<rparr>\<rparr>) =
     initial_state\<lparr>cue := \<lparr>x = 12, y = 12\<rparr>, target := TPocket ''TL'', selectedPocketId := ''TL''\<rparr> \<and>
   onPointerDown False \<lparr>x = 250, y = 350\<rparr> initial_state = initial_state\<lparr>target := TCue\<rparr> \<and>
   onPointerDown False \<lparr>x = 600, y = 200\<rparr> initial_state = initial_state\<lparr>target := TObj\<rparr> \<and>
   onPointerDown False \<lparr>x = 700, y = 5\<rparr> initial_state = initial_state\<lparr>target := TRail\<rparr> \<and>
   onPointerDown False \<lparr>x = 500, y = 250\<rparr> initial_state = initial_state\<lparr>target := TNone\<rparr>"
proof -
  have a: "onPointerDown False \<lparr>x = 12, y = 12\<rparr> (initial_state\<lparr>cue := \<lparr>x = 12, y = 12\<rparr>\<rparr>) =
     initial_state\<lparr>cue := \<lparr>x = 12, y = 12\<rparr>, target := TPocket ''TL'', selectedPocketId := ''TL''\<rparr>"
    using pointer_down_priority [where isCoarse = False and p = "\<lparr>x = 12, y = 12\<rparr>" and s = "initial_state\<lparr>cue := \<lparr>x = 12, y = 12\<rparr>\<rparr>"]
    by (simp add: ev)
  have b: "onPointerDown False \<lparr>x = 250, y = 350\<rparr> initial_state = initial_state\<lparr>target := TCue\<rparr>"
    using pointer_down_priority [where isCoarse = False and p = "\<lparr>x = 250, y = 350\<rparr>" and s = initial_state]
    by (simp add: ev)
  have c: "onPointerDown False \<lparr>x = 600, y = 200\<rparr> initial_state = initial_state\<lparr>target := TObj\<rparr>"
    using pointer_down_priority [where isCoarse = False and p = "\<lparr>x = 600, y = 200\<rparr>" and s = initial_state]
    by (simp add: ev)
  have d: "onPointerDown False \<lparr>x = 700, y = 5\<rparr> initial_state = initial_state\<lparr>target := TRail\<rparr>"
    using pointer_down_priority [where isCoarse = False and p = "\<lparr>x = 700, y = 5\<rparr>" and s = initial_state]
    by (simp add: ev)
  have e: "onPointerDown False \<lparr>x = 500, y = 250\<rparr> initial_state = initial_state\<lparr>target := TNone\<rparr>"
    using pointer_down_priority [where isCoarse = False and p = "\<lparr>x = 500, y = 250\<rparr>" and s = initial_state]
    by (simp add: ev)
  show ?thesis using a b c d e by blast
qed

end
